theory Spec2Isabelle
  imports Complex_Main
begin

section \<open>Calibration confidence decay (calibration-decay.py)\<close>

text \<open>
  A shallow embedding of \<^verbatim>\<open>src/services/pitcherReadiness/calibration-decay.py\<close>.

  Conventions of the embedding:
  \<^item> a Python \<^verbatim>\<open>float\<close> is a \<^typ>\<open>real\<close>: the arithmetic is the exact one, without the
    rounding of IEEE doubles. The two methods whose bounds depend on the infinities and
    NaN, \<^verbatim>\<open>_adjust_decay_rate\<close> and \<^verbatim>\<open>calculate_confidence\<close>, are embedded a second time over
    doubles with these special values (the definitions with the suffix \<open>_f\<close>);
  \<^item> a naive \<^verbatim>\<open>datetime\<close> is its number of microseconds on the time line (an
    \<^typ>\<open>int\<close>), so a difference of two of them is a \<^verbatim>\<open>timedelta\<close> in microseconds;
  \<^item> a \<^verbatim>\<open>Dict[str, float]\<close> is a map \<^typ>\<open>string \<rightharpoonup> real\<close>, an \<^verbatim>\<open>Optional\<close> argument
    is an \<^typ>\<open>'a option\<close>; a dict is falsy exactly when it is empty;
  \<^item> \<^verbatim>\<open>datetime.now()\<close> is an explicit argument \<open>now\<close> of the two methods that read
    the clock;
  \<^item> the calls to \<^verbatim>\<open>logger\<close> have no effect on a result or on the manager and are left
    out;
  \<^item> an f-string is the pair of its text (placeholders as in the source) and the values
    interpolated into it.
\<close>

subsection \<open>Python primitives\<close>

type_synonym datetime = int

type_synonym dict = "string \<rightharpoonup> real"

definition total_seconds :: "int \<Rightarrow> real" where
  "total_seconds delta = real_of_int delta / 1000000"

definition get_default :: "dict \<Rightarrow> string \<Rightarrow> real \<Rightarrow> real" where
  "get_default d k dflt = (case d k of None \<Rightarrow> dflt | Some v \<Rightarrow> v)"

text \<open>
  An \<^verbatim>\<open>Optional[Dict]\<close> is tested only for truth in this file (\<^verbatim>\<open>if not d\<close>,
  \<^verbatim>\<open>if d\<close>), and \<^verbatim>\<open>None\<close> and \<^verbatim>\<open>{}\<close> are both falsy: \<open>entries\<close> reads an absent dict
  as the empty one, and the truth test is \<open>entries d \<noteq> Map.empty\<close>.
\<close>

definition entries :: "dict option \<Rightarrow> dict" where
  "entries d = (case d of None \<Rightarrow> Map.empty | Some m \<Rightarrow> m)"

definition truthy :: "dict option \<Rightarrow> bool" where
  "truthy d = (entries d \<noteq> Map.empty)"

definition py_round :: "real \<Rightarrow> nat \<Rightarrow> real" where
  "py_round x ndigits =
     (let y = x * 10 ^ ndigits;
          f = \<lfloor>y\<rfloor>;
          d = y - of_int f
      in of_int (if d < 1 / 2 then f
                 else if 1 / 2 < d then f + 1
                 else if even f then f else f + 1) / 10 ^ ndigits)"

subsection \<open>class CalibrationConfidenceDecay\<close>

text \<open>
  \<^verbatim>\<open>env_weights\<close> is a dict literal with four fixed keys, written once by the constructor
  and read by literal key only; it is a record of its four entries.
\<close>

record env_weights_t =
  vibration :: real
  wind :: real
  temperature_delta :: real
  humidity_delta :: real

record CalibrationConfidenceDecay =
  initial_confidence :: real
  half_life_minutes :: real
  min_confidence :: real
  decay_rate :: real
  env_weights :: env_weights_t

definition CalibrationConfidenceDecay_init :: "real \<Rightarrow> real \<Rightarrow> real \<Rightarrow> CalibrationConfidenceDecay" where
  "CalibrationConfidenceDecay_init ic hl mc =
     \<lparr>initial_confidence = ic,
      half_life_minutes = hl,
      min_confidence = mc,
      decay_rate = ln 2 / hl,
      env_weights = \<lparr>vibration = 2.0, wind = 1.5, temperature_delta = 1.3, humidity_delta = 1.2\<rparr>\<rparr>"

text \<open>The constructor with its default arguments, \<^verbatim>\<open>CalibrationConfidenceDecay()\<close>.\<close>

definition CalibrationConfidenceDecay_default :: CalibrationConfidenceDecay where
  "CalibrationConfidenceDecay_default = CalibrationConfidenceDecay_init 0.95 45.0 0.5"

text \<open>
  \<^verbatim>\<open>_adjust_decay_rate\<close>: the four \<^verbatim>\<open>if key in env_factors\<close> blocks, each multiplying
  \<^verbatim>\<open>multiplier\<close>, in the order of the source.
\<close>

definition vibration_step :: "CalibrationConfidenceDecay \<Rightarrow> dict \<Rightarrow> real \<Rightarrow> real" where
  "vibration_step self ef multiplier =
     (case ef ''rig_vibration_idx'' of
        None \<Rightarrow> multiplier
      | Some vib \<Rightarrow>
          if vib > 0.3 then multiplier * (1 + (vibration (env_weights self) - 1) * vib)
          else multiplier)"

definition wind_step :: "CalibrationConfidenceDecay \<Rightarrow> dict \<Rightarrow> real \<Rightarrow> real" where
  "wind_step self ef multiplier =
     (case ef ''wind_mph'' of
        None \<Rightarrow> multiplier
      | Some w \<Rightarrow>
          if w > 15 then
            (let wind_factor = min (w / 30) 1.0
             in multiplier * (1 + (wind (env_weights self) - 1) * wind_factor))
          else multiplier)"

definition temperature_step :: "CalibrationConfidenceDecay \<Rightarrow> dict \<Rightarrow> real \<Rightarrow> real" where
  "temperature_step self ef multiplier =
     (case ef ''temperature_delta_f'' of
        None \<Rightarrow> multiplier
      | Some t \<Rightarrow>
          (let temp_delta = \<bar>t\<bar>
           in if temp_delta > 5 then
                (let temp_factor = min (temp_delta / 15) 1.0
                 in multiplier * (1 + (temperature_delta (env_weights self) - 1) * temp_factor))
              else multiplier))"

definition humidity_step :: "CalibrationConfidenceDecay \<Rightarrow> dict \<Rightarrow> real \<Rightarrow> real" where
  "humidity_step self ef multiplier =
     (case ef ''humidity_delta_pct'' of
        None \<Rightarrow> multiplier
      | Some h \<Rightarrow>
          (let humidity_delta' = \<bar>h\<bar>
           in if humidity_delta' > 10 then
                (let humidity_factor = min (humidity_delta' / 30) 1.0
                 in multiplier * (1 + (humidity_delta (env_weights self) - 1) * humidity_factor))
              else multiplier))"

definition adjust_decay_rate :: "CalibrationConfidenceDecay \<Rightarrow> real \<Rightarrow> dict option \<Rightarrow> real" where
  "adjust_decay_rate self base_rate env =
     (if \<not> truthy env then base_rate
      else
        (let ef = entries env;
             multiplier = 1.0;
             multiplier = vibration_step self ef multiplier;
             multiplier = wind_step self ef multiplier;
             multiplier = temperature_step self ef multiplier;
             multiplier = humidity_step self ef multiplier
         in base_rate * multiplier))"

definition calculate_confidence ::
  "CalibrationConfidenceDecay \<Rightarrow> datetime \<Rightarrow> datetime \<Rightarrow> dict option \<Rightarrow> real" where
  "calculate_confidence self last_calibration_ts' current_ts env =
     (let minutes_elapsed = total_seconds (current_ts - last_calibration_ts') / 60.0;
          effective_decay_rate = adjust_decay_rate self (decay_rate self) env;
          conf = initial_confidence self * exp (- effective_decay_rate * minutes_elapsed)
      in max conf (min_confidence self))"

type_synonym fstring = "string \<times> real list"

definition recommend_recalibration ::
  "CalibrationConfidenceDecay \<Rightarrow> real \<Rightarrow> real \<Rightarrow> real \<Rightarrow> bool \<times> fstring" where
  "recommend_recalibration self conf qa_score late_data_frac =
     (if conf < 0.6 then
        (True, (''Low calibration confidence: {confidence:.2f}'', [conf]))
      else if qa_score < 0.7 \<and> conf < 0.8 then
        (True, (''Low QA + declining calibration: QA={qa_score:.2f}, Cal={confidence:.2f}'',
                [qa_score, conf]))
      else if late_data_frac > 0.3 \<and> conf < 0.75 then
        (True, (''High latency + calibration drift: Late={late_data_frac:.2f}, Cal={confidence:.2f}'',
                [late_data_frac, conf]))
      else (False, (''Calibration acceptable'', [])))"

definition get_action :: "CalibrationConfidenceDecay \<Rightarrow> real \<Rightarrow> string" where
  "get_action self conf =
     (if conf \<ge> 0.8 then ''NONE''
      else if conf \<ge> 0.7 then ''REBASELINE''
      else if conf \<ge> 0.6 then ''FALLBACK''
      else ''ALERT'')"

subsection \<open>class CalibrationManager\<close>

record calibration_event =
  venue_id :: string
  session_id :: string
  timestamp :: datetime
  event_confidence :: real

record CalibrationManager =
  decay_model :: CalibrationConfidenceDecay
  calibration_history :: "calibration_event list"
  last_calibration_ts :: "datetime option"
  last_env_snapshot :: dict

definition CalibrationManager_init :: CalibrationManager where
  "CalibrationManager_init =
     \<lparr>decay_model = CalibrationConfidenceDecay_default,
      calibration_history = [],
      last_calibration_ts = None,
      last_env_snapshot = Map.empty\<rparr>"

definition update_calibration ::
  "CalibrationManager \<Rightarrow> datetime \<Rightarrow> string \<Rightarrow> string \<Rightarrow> real \<Rightarrow> CalibrationManager" where
  "update_calibration self now venue session conf =
     self\<lparr>last_calibration_ts := Some now,
          calibration_history :=
            calibration_history self @
              [\<lparr>venue_id = venue, session_id = session, timestamp = now, event_confidence = conf\<rparr>]\<rparr>"

text \<open>
  The dict returned by \<^verbatim>\<open>get_current_confidence\<close>. The early return has the first four
  keys only: there the last two fields are \<open>None\<close>.
\<close>

record assessment =
  confidence :: real
  action :: string
  reason :: fstring
  should_recalibrate :: bool
  minutes_since_calibration :: "real option"
  env_factors :: "dict option"

text \<open>
  The block under \<^verbatim>\<open># Calculate environmental deltas\<close>: the dict \<^verbatim>\<open>env_factors\<close> it
  builds from the snapshot of the call and the stored one.
\<close>

definition environmental_deltas :: "CalibrationManager \<Rightarrow> dict option \<Rightarrow> dict" where
  "environmental_deltas self env_snapshot =
     (if truthy env_snapshot then
        (let snap = entries env_snapshot;
             ef = Map.empty;
             ef = (if last_env_snapshot self \<noteq> Map.empty then
                     ef(''temperature_delta_f'' \<mapsto>
                          get_default snap ''temperature_f'' 70
                            - get_default (last_env_snapshot self) ''temperature_f'' 70,
                        ''humidity_delta_pct'' \<mapsto>
                          get_default snap ''humidity_pct'' 50
                            - get_default (last_env_snapshot self) ''humidity_pct'' 50)
                   else ef)
         in ef(''rig_vibration_idx'' \<mapsto> get_default snap ''rig_vibration_idx_0_1'' 0,
               ''wind_mph'' \<mapsto> get_default snap ''wind_mph'' 0))
      else Map.empty)"

definition get_current_confidence ::
  "CalibrationManager \<Rightarrow> datetime \<Rightarrow> datetime option \<Rightarrow> dict option
     \<Rightarrow> assessment \<times> CalibrationManager" where
  "get_current_confidence self now current_ts env_snapshot =
     (case last_calibration_ts self of
        None \<Rightarrow>
          (\<lparr>confidence = 0.5,
            action = ''ALERT'',
            reason = (''No calibration found'', []),
            should_recalibrate = True,
            minutes_since_calibration = None,
            env_factors = None\<rparr>, self)
      | Some last_ts \<Rightarrow>
          (let cur = (case current_ts of None \<Rightarrow> now | Some t \<Rightarrow> t);
               ef = environmental_deltas self env_snapshot;
               self' = (if truthy env_snapshot
                        then self\<lparr>last_env_snapshot := entries env_snapshot\<rparr> else self);
               conf = calculate_confidence (decay_model self) last_ts cur (Some ef);
               act = get_action (decay_model self) conf;
               qa_score = (if truthy env_snapshot
                           then get_default (entries env_snapshot) ''tracking_qa'' 0.9 else 0.9);
               late_frac = (if truthy env_snapshot
                            then get_default (entries env_snapshot) ''late_data_frac'' 0.05 else 0.05);
               (should, why) = recommend_recalibration (decay_model self) conf qa_score late_frac
           in (\<lparr>confidence = py_round conf 3,
                action = act,
                reason = why,
                should_recalibrate = should,
                minutes_since_calibration = Some (total_seconds (cur - last_ts) / 60.0),
                env_factors = Some ef\<rparr>, self')))"

text \<open>
  The value of \<^verbatim>\<open>multiplier\<close> at the \<^verbatim>\<open>return\<close> of \<^verbatim>\<open>_adjust_decay_rate\<close>, for a non-empty
  dict (a name for the proofs; \<open>adjust_decay_rate_truthy\<close> relates it to the method).
\<close>

definition env_multiplier :: "CalibrationConfidenceDecay \<Rightarrow> dict \<Rightarrow> real" where
  "env_multiplier self ef =
     humidity_step self ef (temperature_step self ef (wind_step self ef (vibration_step self ef 1)))"

subsection \<open>Doubles with infinities and NaN\<close>

text \<open>
  A double is a finite value or one of \<^verbatim>\<open>inf\<close>, \<^verbatim>\<open>-inf\<close>, \<^verbatim>\<open>nan\<close>. The arithmetic on finite
  values is the exact one (no rounding, no overflow, no signed zero); an operation with a
  special value follows IEEE 754: \<^verbatim>\<open>nan\<close> propagates, \<^verbatim>\<open>inf - inf\<close> and \<^verbatim>\<open>inf * 0\<close> are
  \<^verbatim>\<open>nan\<close>, every comparison with \<^verbatim>\<open>nan\<close> is false, and \<^verbatim>\<open>np.exp\<close> maps \<^verbatim>\<open>-inf\<close> to 0.
\<close>

datatype pyfloat = Finite real | PosInf | NegInf | NaN

type_synonym fdict = "string \<rightharpoonup> pyfloat"

fun fneg :: "pyfloat \<Rightarrow> pyfloat" where
  "fneg (Finite x) = Finite (- x)"
| "fneg PosInf = NegInf"
| "fneg NegInf = PosInf"
| "fneg NaN = NaN"

fun fabs :: "pyfloat \<Rightarrow> pyfloat" where
  "fabs (Finite x) = Finite \<bar>x\<bar>"
| "fabs PosInf = PosInf"
| "fabs NegInf = PosInf"
| "fabs NaN = NaN"

fun fadd :: "pyfloat \<Rightarrow> pyfloat \<Rightarrow> pyfloat" where
  "fadd NaN _ = NaN"
| "fadd _ NaN = NaN"
| "fadd (Finite x) (Finite y) = Finite (x + y)"
| "fadd (Finite x) PosInf = PosInf"
| "fadd (Finite x) NegInf = NegInf"
| "fadd PosInf (Finite y) = PosInf"
| "fadd NegInf (Finite y) = NegInf"
| "fadd PosInf PosInf = PosInf"
| "fadd NegInf NegInf = NegInf"
| "fadd PosInf NegInf = NaN"
| "fadd NegInf PosInf = NaN"

fun fmul :: "pyfloat \<Rightarrow> pyfloat \<Rightarrow> pyfloat" where
  "fmul NaN _ = NaN"
| "fmul _ NaN = NaN"
| "fmul (Finite x) (Finite y) = Finite (x * y)"
| "fmul (Finite x) PosInf = (if x = 0 then NaN else if 0 < x then PosInf else NegInf)"
| "fmul (Finite x) NegInf = (if x = 0 then NaN else if 0 < x then NegInf else PosInf)"
| "fmul PosInf (Finite y) = (if y = 0 then NaN else if 0 < y then PosInf else NegInf)"
| "fmul NegInf (Finite y) = (if y = 0 then NaN else if 0 < y then NegInf else PosInf)"
| "fmul PosInf PosInf = PosInf"
| "fmul PosInf NegInf = NegInf"
| "fmul NegInf PosInf = NegInf"
| "fmul NegInf NegInf = PosInf"

text \<open>Division by a positive finite constant (the \<^verbatim>\<open>/ 30\<close> and \<^verbatim>\<open>/ 15\<close> of the source).\<close>

fun fdiv_const :: "pyfloat \<Rightarrow> real \<Rightarrow> pyfloat" where
  "fdiv_const (Finite x) c = Finite (x / c)"
| "fdiv_const PosInf c = PosInf"
| "fdiv_const NegInf c = NegInf"
| "fdiv_const NaN c = NaN"

fun fexp :: "pyfloat \<Rightarrow> pyfloat" where
  "fexp (Finite x) = Finite (exp x)"
| "fexp PosInf = PosInf"
| "fexp NegInf = Finite 0"
| "fexp NaN = NaN"

text \<open>The comparisons \<^verbatim>\<open>a > b\<close> and \<^verbatim>\<open>a >= b\<close>.\<close>

fun fgt :: "pyfloat \<Rightarrow> pyfloat \<Rightarrow> bool" where
  "fgt NaN _ = False"
| "fgt _ NaN = False"
| "fgt (Finite x) (Finite y) = (x > y)"
| "fgt (Finite x) PosInf = False"
| "fgt (Finite x) NegInf = True"
| "fgt PosInf (Finite y) = True"
| "fgt PosInf PosInf = False"
| "fgt PosInf NegInf = True"
| "fgt NegInf _ = False"

fun fge :: "pyfloat \<Rightarrow> pyfloat \<Rightarrow> bool" where
  "fge NaN _ = False"
| "fge _ NaN = False"
| "fge (Finite x) (Finite y) = (x \<ge> y)"
| "fge (Finite x) PosInf = False"
| "fge (Finite x) NegInf = True"
| "fge PosInf _ = True"
| "fge NegInf (Finite y) = False"
| "fge NegInf PosInf = False"
| "fge NegInf NegInf = True"

text \<open>
  The builtins \<^verbatim>\<open>max(a, b)\<close> and \<^verbatim>\<open>min(a, b)\<close> keep their first argument unless the second
  one compares greater (smaller): with \<^verbatim>\<open>nan\<close> first, \<^verbatim>\<open>nan\<close> is returned.
\<close>

definition py_max :: "pyfloat \<Rightarrow> pyfloat \<Rightarrow> pyfloat" where
  "py_max a b = (if fgt b a then b else a)"

definition py_min :: "pyfloat \<Rightarrow> pyfloat \<Rightarrow> pyfloat" where
  "py_min a b = (if fgt a b then b else a)"

text \<open>
  \<^verbatim>\<open>_adjust_decay_rate\<close> and \<^verbatim>\<open>calculate_confidence\<close> once more, every operation of the
  source replaced by the one on doubles. The parameters of the model are finite.
\<close>

definition vibration_step_f :: "CalibrationConfidenceDecay \<Rightarrow> fdict \<Rightarrow> pyfloat \<Rightarrow> pyfloat" where
  "vibration_step_f self ef multiplier =
     (case ef ''rig_vibration_idx'' of
        None \<Rightarrow> multiplier
      | Some vib \<Rightarrow>
          if fgt vib (Finite 0.3)
          then fmul multiplier
                 (fadd (Finite 1) (fmul (Finite (vibration (env_weights self) - 1)) vib))
          else multiplier)"

definition wind_step_f :: "CalibrationConfidenceDecay \<Rightarrow> fdict \<Rightarrow> pyfloat \<Rightarrow> pyfloat" where
  "wind_step_f self ef multiplier =
     (case ef ''wind_mph'' of
        None \<Rightarrow> multiplier
      | Some w \<Rightarrow>
          if fgt w (Finite 15) then
            (let wind_factor = py_min (fdiv_const w 30) (Finite 1.0)
             in fmul multiplier
                  (fadd (Finite 1) (fmul (Finite (wind (env_weights self) - 1)) wind_factor)))
          else multiplier)"

definition temperature_step_f :: "CalibrationConfidenceDecay \<Rightarrow> fdict \<Rightarrow> pyfloat \<Rightarrow> pyfloat" where
  "temperature_step_f self ef multiplier =
     (case ef ''temperature_delta_f'' of
        None \<Rightarrow> multiplier
      | Some t \<Rightarrow>
          (let temp_delta = fabs t
           in if fgt temp_delta (Finite 5) then
                (let temp_factor = py_min (fdiv_const temp_delta 15) (Finite 1.0)
                 in fmul multiplier
                      (fadd (Finite 1)
                         (fmul (Finite (temperature_delta (env_weights self) - 1)) temp_factor)))
              else multiplier))"

definition humidity_step_f :: "CalibrationConfidenceDecay \<Rightarrow> fdict \<Rightarrow> pyfloat \<Rightarrow> pyfloat" where
  "humidity_step_f self ef multiplier =
     (case ef ''humidity_delta_pct'' of
        None \<Rightarrow> multiplier
      | Some h \<Rightarrow>
          (let humidity_delta' = fabs h
           in if fgt humidity_delta' (Finite 10) then
                (let humidity_factor = py_min (fdiv_const humidity_delta' 30) (Finite 1.0)
                 in fmul multiplier
                      (fadd (Finite 1)
                         (fmul (Finite (humidity_delta (env_weights self) - 1)) humidity_factor)))
              else multiplier))"

definition adjust_decay_rate_f ::
  "CalibrationConfidenceDecay \<Rightarrow> pyfloat \<Rightarrow> fdict option \<Rightarrow> pyfloat" where
  "adjust_decay_rate_f self base_rate env =
     (case env of
        None \<Rightarrow> base_rate
      | Some ef \<Rightarrow>
          if ef = Map.empty then base_rate
          else
            (let multiplier = Finite 1.0;
                 multiplier = vibration_step_f self ef multiplier;
                 multiplier = wind_step_f self ef multiplier;
                 multiplier = temperature_step_f self ef multiplier;
                 multiplier = humidity_step_f self ef multiplier
             in fmul base_rate multiplier))"

definition calculate_confidence_f ::
  "CalibrationConfidenceDecay \<Rightarrow> datetime \<Rightarrow> datetime \<Rightarrow> fdict option \<Rightarrow> pyfloat" where
  "calculate_confidence_f self last_calibration_ts' current_ts env =
     (let minutes_elapsed = Finite (total_seconds (current_ts - last_calibration_ts') / 60.0);
          effective_decay_rate = adjust_decay_rate_f self (Finite (decay_rate self)) env;
          conf = fmul (Finite (initial_confidence self))
                   (fexp (fmul (fneg effective_decay_rate) minutes_elapsed))
      in py_max conf (Finite (min_confidence self)))"

text \<open>A dict of finite values, read as a dict of doubles.\<close>

definition finite_dict :: "dict option \<Rightarrow> fdict option" where
  "finite_dict env = map_option (\<lambda>m k. map_option Finite (m k)) env"

subsection \<open>Definitions used to state the properties\<close>


text \<open>An \<^verbatim>\<open>env_factors\<close> dict with the key \<open>k\<close> taken out: the factor wholly absent.\<close>

definition without_factor :: "string \<Rightarrow> dict option \<Rightarrow> dict option" where
  "without_factor k env = Some ((entries env)(k := None))"

text \<open>
  What it is for the factor \<open>k\<close> to contribute nothing to the assessment \<open>r\<close> of a manager
  calibrated at \<open>last_ts\<close> and asked at \<open>t\<close>: with the key \<open>k\<close> taken out of the
  \<^verbatim>\<open>env_factors\<close> of \<open>r\<close>, the adjusted decay rate, the confidence and the action are the
  same.
\<close>

definition factor_ignored ::
  "CalibrationManager \<Rightarrow> datetime \<Rightarrow> datetime \<Rightarrow> assessment \<Rightarrow> string \<Rightarrow> bool" where
  "factor_ignored self last_ts t r k =
     (adjust_decay_rate (decay_model self) (decay_rate (decay_model self)) (env_factors r)
        = adjust_decay_rate (decay_model self) (decay_rate (decay_model self))
            (without_factor k (env_factors r))
      \<and> confidence r
        = py_round (calculate_confidence (decay_model self) last_ts t
                      (without_factor k (env_factors r))) 3
      \<and> action r
        = get_action (decay_model self)
            (calculate_confidence (decay_model self) last_ts t (without_factor k (env_factors r))))"

section \<open>Properties\<close>


subsection \<open>The environmental multiplier\<close>

lemma init_weights [simp]:
  "env_weights (CalibrationConfidenceDecay_init ic hl mc) =
     \<lparr>vibration = 2.0, wind = 1.5, temperature_delta = 1.3, humidity_delta = 1.2\<rparr>"
  by (simp add: CalibrationConfidenceDecay_init_def)

lemma vibration_step_ge:
  "1 \<le> m \<Longrightarrow> 1 \<le> vibration_step (CalibrationConfidenceDecay_init ic hl mc) ef m"
proof (cases "ef ''rig_vibration_idx''")
  case None
  assume "1 \<le> m"
  with None show ?thesis by (simp add: vibration_step_def)
next
  case (Some v)
  assume m: "1 \<le> m"
  show ?thesis
  proof (cases "v > 0.3")
    case True
    then have "1 \<le> 1 + v" by simp
    with m have "1 * 1 \<le> m * (1 + v)" by (intro mult_mono) auto
    with Some True show ?thesis by (simp add: vibration_step_def)
  next
    case False
    with Some m show ?thesis by (simp add: vibration_step_def)
  qed
qed

lemma wind_step_ge:
  "1 \<le> m \<Longrightarrow> 1 \<le> wind_step (CalibrationConfidenceDecay_init ic hl mc) ef m"
proof (cases "ef ''wind_mph''")
  case None
  assume "1 \<le> m"
  with None show ?thesis by (simp add: wind_step_def)
next
  case (Some w)
  assume m: "1 \<le> m"
  show ?thesis
  proof (cases "w > 15")
    case True
    then have "0 \<le> min (w / 30) 1" by simp
    then have "1 \<le> 1 + (1.5 - 1) * min (w / 30) 1" by simp
    with m have "1 * 1 \<le> m * (1 + (1.5 - 1) * min (w / 30) 1)" by (intro mult_mono) auto
    with Some True show ?thesis by (simp add: wind_step_def Let_def)
  next
    case False
    with Some m show ?thesis by (simp add: wind_step_def)
  qed
qed

lemma temperature_step_ge:
  "1 \<le> m \<Longrightarrow> 1 \<le> temperature_step (CalibrationConfidenceDecay_init ic hl mc) ef m"
proof (cases "ef ''temperature_delta_f''")
  case None
  assume "1 \<le> m"
  with None show ?thesis by (simp add: temperature_step_def)
next
  case (Some t)
  assume m: "1 \<le> m"
  show ?thesis
  proof (cases "\<bar>t\<bar> > 5")
    case True
    have "0 \<le> min (\<bar>t\<bar> / 15) 1" by simp
    then have "1 \<le> 1 + (1.3 - 1) * min (\<bar>t\<bar> / 15) 1" by simp
    with m have "1 * 1 \<le> m * (1 + (1.3 - 1) * min (\<bar>t\<bar> / 15) 1)" by (intro mult_mono) auto
    with Some True show ?thesis by (simp add: temperature_step_def Let_def)
  next
    case False
    with Some m show ?thesis by (simp add: temperature_step_def Let_def)
  qed
qed

lemma humidity_step_ge:
  "1 \<le> m \<Longrightarrow> 1 \<le> humidity_step (CalibrationConfidenceDecay_init ic hl mc) ef m"
proof (cases "ef ''humidity_delta_pct''")
  case None
  assume "1 \<le> m"
  with None show ?thesis by (simp add: humidity_step_def)
next
  case (Some h)
  assume m: "1 \<le> m"
  show ?thesis
  proof (cases "\<bar>h\<bar> > 10")
    case True
    have "0 \<le> min (\<bar>h\<bar> / 30) 1" by simp
    then have "1 \<le> 1 + (1.2 - 1) * min (\<bar>h\<bar> / 30) 1" by simp
    with m have "1 * 1 \<le> m * (1 + (1.2 - 1) * min (\<bar>h\<bar> / 30) 1)" by (intro mult_mono) auto
    with Some True show ?thesis by (simp add: humidity_step_def Let_def)
  next
    case False
    with Some m show ?thesis by (simp add: humidity_step_def Let_def)
  qed
qed

lemma adjust_decay_rate_truthy:
  "truthy env \<Longrightarrow>
   adjust_decay_rate self base_rate env = base_rate * env_multiplier self (entries env)"
  by (simp add: adjust_decay_rate_def env_multiplier_def Let_def)

lemma env_multiplier_ge:
  "1 \<le> env_multiplier (CalibrationConfidenceDecay_init ic hl mc) ef"
  unfolding env_multiplier_def
  by (intro humidity_step_ge temperature_step_ge wind_step_ge vibration_step_ge) simp

text \<open>
  In exact arithmetic the rate returned by \<^verbatim>\<open>_adjust_decay_rate\<close> of a model built by the
  constructor is at least a base rate \<open>\<ge> 0\<close>, and the confidence returned by
  \<^verbatim>\<open>calculate_confidence\<close> is at least \<^verbatim>\<open>min_confidence\<close>.
\<close>

lemma adjust_decay_rate_ge_base_exact:
  "0 \<le> base_rate \<Longrightarrow>
   base_rate \<le> adjust_decay_rate (CalibrationConfidenceDecay_init ic hl mc) base_rate env"
proof (cases "truthy env")
  case False
  then show ?thesis by (simp add: adjust_decay_rate_def)
next
  case True
  assume b: "0 \<le> base_rate"
  have "base_rate * 1 \<le>
        base_rate * env_multiplier (CalibrationConfidenceDecay_init ic hl mc) (entries env)"
    using b env_multiplier_ge by (intro mult_left_mono) auto
  with True show ?thesis by (simp add: adjust_decay_rate_truthy)
qed

lemma calculate_confidence_ge_min_exact:
  "min_confidence self \<le> calculate_confidence self last_ts current_ts env"
  by (simp add: calculate_confidence_def Let_def)

subsection \<open>Basic facts about dicts\<close>

lemma not_truthy_None [simp]: "\<not> truthy None"
  by (simp add: truthy_def entries_def)

lemma not_truthy_empty [simp]: "\<not> truthy (Some Map.empty)"
  by (simp add: truthy_def entries_def)

lemma truthy_upd [simp]: "truthy (Some (m(k \<mapsto> v)))"
  by (simp add: truthy_def entries_def)

lemma entries_Some [simp]: "entries (Some m) = m"
  by (simp add: entries_def)


subsection \<open>One factor at a time\<close>

lemma vibration_step_mult: "vibration_step self ef m = m * vibration_step self ef 1"
  by (simp add: vibration_step_def split: option.split)

lemma wind_step_mult: "wind_step self ef m = m * wind_step self ef 1"
  by (simp add: wind_step_def Let_def split: option.split)

lemma temperature_step_mult: "temperature_step self ef m = m * temperature_step self ef 1"
  by (simp add: temperature_step_def Let_def split: option.split)

lemma humidity_step_mult: "humidity_step self ef m = m * humidity_step self ef 1"
  by (simp add: humidity_step_def Let_def split: option.split)

lemma env_multiplier_prod:
  "env_multiplier self ef =
     vibration_step self ef 1 * wind_step self ef 1 * temperature_step self ef 1
       * humidity_step self ef 1"
  unfolding env_multiplier_def
  by (subst humidity_step_mult, subst temperature_step_mult, subst wind_step_mult) simp

lemma env_multiplier_empty: "env_multiplier self Map.empty = 1"
  by (simp add: env_multiplier_def vibration_step_def wind_step_def temperature_step_def
      humidity_step_def)

lemma adjust_decay_rate_Some:
  "adjust_decay_rate self base_rate (Some ef) = base_rate * env_multiplier self ef"
proof (cases "ef = Map.empty")
  case True
  then show ?thesis
    by (simp add: adjust_decay_rate_def truthy_def entries_def env_multiplier_empty)
next
  case False
  then have "truthy (Some ef)" by (simp add: truthy_def entries_def)
  from adjust_decay_rate_truthy[OF this] show ?thesis by (simp add: entries_def)
qed










lemma adjust_single:
  "adjust_decay_rate self 1 (Some [k \<mapsto> v]) = env_multiplier self [k \<mapsto> v]"
  by (simp add: adjust_decay_rate_Some)








subsection \<open>Decay without environmental factors\<close>

lemma half_life_exp: "0 < hl \<Longrightarrow> exp (- (ln 2 / hl) * hl) = (1 / 2 :: real)"
proof -
  assume "0 < hl"
  then have "- (ln 2 / hl) * hl = - ln (2::real)" by simp
  then have "exp (- (ln 2 / hl) * hl) = exp (- ln (2::real))" by simp
  also have "\<dots> = 1 / 2" by (simp add: exp_minus inverse_eq_divide)
  finally show ?thesis .
qed

lemma calc_no_env:
  "\<not> truthy env \<Longrightarrow>
   calculate_confidence (CalibrationConfidenceDecay_init ic hl mc) last_ts t env =
     max (ic * exp (- (ln 2 / hl) * (total_seconds (t - last_ts) / 60))) mc"
  by (simp add: calculate_confidence_def adjust_decay_rate_def CalibrationConfidenceDecay_init_def
      Let_def mult.commute)

lemma minutes_mono: "t1 < t2 \<Longrightarrow> total_seconds (t1 - l) / 60 < total_seconds (t2 - l) / 60"
  by (simp add: total_seconds_def divide_strict_right_mono)

lemma undamped_strict:
  assumes "0 < ic" "0 < hl" "t1 < t2"
  shows "ic * exp (- (ln 2 / hl) * (total_seconds (t2 - l) / 60))
       < ic * exp (- (ln 2 / hl) * (total_seconds (t1 - l) / 60))"
proof -
  have r: "0 < ln 2 / hl" using assms(2) by simp
  have "(ln 2 / hl) * (total_seconds (t1 - l) / 60) < (ln 2 / hl) * (total_seconds (t2 - l) / 60)"
    using r minutes_mono[OF assms(3)] by (intro mult_strict_left_mono) auto
  then have "exp (- (ln 2 / hl) * (total_seconds (t2 - l) / 60))
           < exp (- (ln 2 / hl) * (total_seconds (t1 - l) / 60))"
    by simp
  with assms(1) show ?thesis by (intro mult_strict_left_mono) auto
qed

lemma exp_as_powr: "0 < hl \<Longrightarrow> exp (- (ln 2 / hl) * m) = (2::real) powr (- (m / hl))"
proof -
  assume "0 < hl"
  have "- (ln 2 / hl) * m = - (m / hl) * ln (2::real)" by simp
  then show ?thesis by (simp add: powr_def)
qed

lemma calc_closed_form:
  assumes "0 < hl" "\<not> truthy env"
  shows "calculate_confidence (CalibrationConfidenceDecay_init ic hl mc) last_ts t env
         = max (ic * 2 powr (- ((total_seconds (t - last_ts) / 60) / hl))) mc"
  unfolding calc_no_env[OF assms(2)] exp_as_powr[OF assms(1)] ..

lemma powr_halves:
  assumes "0 < hl"
  shows "2 powr (- ((m + hl) / hl)) = 2 powr (- (m / hl)) / (2::real)"
proof -
  have "- ((m + hl) / hl) = - (m / hl) - 1" using assms by (simp add: field_simps)
  then have "2 powr (- ((m + hl) / hl)) = 2 powr (- (m / hl) - 1)" by simp
  also have "\<dots> = 2 powr (- (m / hl)) / 2 powr (1::real)" by (rule powr_diff)
  finally show ?thesis by simp
qed

text \<open>
  C5 (as the code has it). With a positive initial confidence and half-life and no
  environmental factors (\<^verbatim>\<open>env_factors\<close> absent or empty), the confidence returned by
  \<^verbatim>\<open>calculate_confidence\<close> is \<open>max (initial * 2 powr (- minutes / half_life)) min_confidence\<close>:
  the decay rate is \<open>ln 2 / half_life\<close>. So one half-life later the value under the floor
  is halved; for timestamps at or after the calibration the confidence never increases
  with the elapsed time and strictly decreases as long as it is above \<^verbatim>\<open>min_confidence\<close>;
  and at an elapsed time of exactly the half-life it is \<open>initial / 2\<close> floored at
  \<^verbatim>\<open>min_confidence\<close>.
\<close>

theorem calculate_confidence_decay:
  assumes "0 < ic" "0 < hl" "\<not> truthy env"
  shows "calculate_confidence (CalibrationConfidenceDecay_init ic hl mc) last_ts t env
           = max (ic * 2 powr (- ((total_seconds (t - last_ts) / 60) / hl))) mc
       \<and> (total_seconds (t2 - last_ts) / 60 = total_seconds (t1 - last_ts) / 60 + hl \<longrightarrow>
            calculate_confidence (CalibrationConfidenceDecay_init ic hl mc) last_ts t2 env
          = max (ic * 2 powr (- ((total_seconds (t1 - last_ts) / 60) / hl)) / 2) mc)
       \<and> (last_ts \<le> t1 \<and> t1 < t2 \<longrightarrow>
            calculate_confidence (CalibrationConfidenceDecay_init ic hl mc) last_ts t2 env
          \<le> calculate_confidence (CalibrationConfidenceDecay_init ic hl mc) last_ts t1 env)
       \<and> (last_ts \<le> t1 \<and> t1 < t2 \<and>
            mc < calculate_confidence (CalibrationConfidenceDecay_init ic hl mc) last_ts t1 env \<longrightarrow>
            calculate_confidence (CalibrationConfidenceDecay_init ic hl mc) last_ts t2 env
          < calculate_confidence (CalibrationConfidenceDecay_init ic hl mc) last_ts t1 env)
       \<and> (total_seconds (t - last_ts) / 60 = hl \<longrightarrow>
            calculate_confidence (CalibrationConfidenceDecay_init ic hl mc) last_ts t env
          = max (ic / 2) mc)"
proof (intro conjI impI)
  show "calculate_confidence (CalibrationConfidenceDecay_init ic hl mc) last_ts t env
           = max (ic * 2 powr (- ((total_seconds (t - last_ts) / 60) / hl))) mc"
    by (rule calc_closed_form[OF assms(2,3)])
next
  assume e: "total_seconds (t2 - last_ts) / 60 = total_seconds (t1 - last_ts) / 60 + hl"
  show "calculate_confidence (CalibrationConfidenceDecay_init ic hl mc) last_ts t2 env
          = max (ic * 2 powr (- ((total_seconds (t1 - last_ts) / 60) / hl)) / 2) mc"
    unfolding calc_closed_form[OF assms(2,3)] e powr_halves[OF assms(2)] by simp
next
  assume "last_ts \<le> t1 \<and> t1 < t2"
  then have "t1 < t2" by simp
  from undamped_strict[OF assms(1,2) this, of last_ts]
  show "calculate_confidence (CalibrationConfidenceDecay_init ic hl mc) last_ts t2 env
          \<le> calculate_confidence (CalibrationConfidenceDecay_init ic hl mc) last_ts t1 env"
    by (simp add: calc_no_env[OF assms(3)])
next
  assume a: "last_ts \<le> t1 \<and> t1 < t2 \<and>
            mc < calculate_confidence (CalibrationConfidenceDecay_init ic hl mc) last_ts t1 env"
  then have "t1 < t2" by simp
  from undamped_strict[OF assms(1,2) this, of last_ts] a
  show "calculate_confidence (CalibrationConfidenceDecay_init ic hl mc) last_ts t2 env
          < calculate_confidence (CalibrationConfidenceDecay_init ic hl mc) last_ts t1 env"
    by (simp add: calc_no_env[OF assms(3)])
next
  assume e: "total_seconds (t - last_ts) / 60 = hl"
  have "calculate_confidence (CalibrationConfidenceDecay_init ic hl mc) last_ts t env
          = max (ic * exp (- (ln 2 / hl) * hl)) mc"
    unfolding calc_no_env[OF assms(3)] e ..
  also have "\<dots> = max (ic / 2) mc"
    unfolding half_life_exp[OF assms(2)] by simp
  finally show "calculate_confidence (CalibrationConfidenceDecay_init ic hl mc) last_ts t env
          = max (ic / 2) mc" .
qed

theorem calculate_confidence_decay_witness:
  "(0::real) < 1 \<and> (0::real) < 45 \<and> \<not> truthy None
   \<and> total_seconds (2700000000 - 0) / 60 = 45
   \<and> total_seconds (2700000000 - 0) / 60 = total_seconds (0 - 0) / 60 + 45
   \<and> calculate_confidence (CalibrationConfidenceDecay_init 1 45 (1 / 4)) 0 2700000000 None = 1 / 2
   \<and> (0::int) \<le> 0 \<and> (0::int) < 2700000000
   \<and> 1 / 4 < calculate_confidence (CalibrationConfidenceDecay_init 1 45 (1 / 4)) 0 0 None
   \<and> calculate_confidence (CalibrationConfidenceDecay_init 1 45 (1 / 4)) 0 2700000000 None
       < calculate_confidence (CalibrationConfidenceDecay_init 1 45 (1 / 4)) 0 0 None"
  using calculate_confidence_decay
    [where ic = 1 and hl = 45 and env = None and last_ts = 0 and ?t1.0 = 0
       and ?t2.0 = 2700000000 and mc = "1 / 4" and t = 2700000000]
  by (simp add: total_seconds_def calc_no_env)

text \<open>
  C5 as the claim words it fails with the default parameters: 45 minutes after the
  calibration the method returns the floor 0.5, not \<open>0.95 / 2\<close>.
\<close>

theorem calculate_confidence_half_life_counterexample:
  "calculate_confidence CalibrationConfidenceDecay_default 0 2700000000 None \<noteq> (95 / 100) / 2"
  using half_life_exp[of 45]
  by (simp add: CalibrationConfidenceDecay_default_def calc_no_env total_seconds_def)

subsection \<open>A query before the calibration instant\<close>

text \<open>
  C2. The claim is that a negative elapsed time is clamped to zero, so that the confidence
  never exceeds the initial confidence. The code does not clamp: with the default model, a
  query 45 minutes before the calibration instant returns \<open>0.95 * exp (ln 2) = 1.9\<close>, twice
  the initial confidence and outside the range \<open>[0, 1]\<close> that the docstring of
  \<^verbatim>\<open>calculate_confidence\<close> gives for the returned value.
\<close>

theorem calculate_confidence_before_calibration:
  "calculate_confidence CalibrationConfidenceDecay_default 2700000000 0 None = 19 / 10"
  by (simp add: calculate_confidence_def CalibrationConfidenceDecay_default_def
      CalibrationConfidenceDecay_init_def adjust_decay_rate_def total_seconds_def Let_def)

subsection \<open>The recalibration policy\<close>

text \<open>
  C9. \<^verbatim>\<open>recommend_recalibration\<close> applies its rules in order, the first true one winning:
  confidence below 0.60; QA below 0.70 together with confidence below 0.80; late-data
  fraction above 0.30 together with confidence below 0.75; otherwise no recalibration.
  With a confidence of at least 0.80 nothing recalibrates, whatever the QA score and the
  late-data fraction are. The two scenarios of the specification evaluate as it says.
\<close>

theorem recommend_recalibration_rules:
  "(c < 0.6 \<longrightarrow>
      recommend_recalibration self c q l
        = (True, (''Low calibration confidence: {confidence:.2f}'', [c])))
   \<and> (\<not> c < 0.6 \<and> q < 0.7 \<and> c < 0.8 \<longrightarrow>
      recommend_recalibration self c q l
        = (True, (''Low QA + declining calibration: QA={qa_score:.2f}, Cal={confidence:.2f}'',
                  [q, c])))
   \<and> (\<not> c < 0.6 \<and> \<not> (q < 0.7 \<and> c < 0.8) \<and> l > 0.3 \<and> c < 0.75 \<longrightarrow>
      recommend_recalibration self c q l
        = (True, (''High latency + calibration drift: Late={late_data_frac:.2f}, Cal={confidence:.2f}'',
                  [l, c])))
   \<and> (\<not> c < 0.6 \<and> \<not> (q < 0.7 \<and> c < 0.8) \<and> \<not> (l > 0.3 \<and> c < 0.75) \<longrightarrow>
      recommend_recalibration self c q l = (False, (''Calibration acceptable'', [])))
   \<and> (0.8 \<le> c \<longrightarrow> \<not> fst (recommend_recalibration self c q l))
   \<and> \<not> fst (recommend_recalibration self 0.85 0.65 0.05)
   \<and> fst (recommend_recalibration self 0.78 0.65 0.05)"
  by (simp add: recommend_recalibration_def)

theorem recommend_recalibration_rules_witness:
  "\<not> (78 / 100 :: real) < 0.6 \<and> (65 / 100 :: real) < 0.7 \<and> (78 / 100 :: real) < 0.8
   \<and> recommend_recalibration CalibrationConfidenceDecay_default (78 / 100) (65 / 100) (5 / 100)
       = (True, (''Low QA + declining calibration: QA={qa_score:.2f}, Cal={confidence:.2f}'',
                 [65 / 100, 78 / 100]))"
  using recommend_recalibration_rules
    [of "78 / 100" CalibrationConfidenceDecay_default "65 / 100" "5 / 100"]
  by simp

subsection \<open>The manager before any calibration\<close>

text \<open>
  C8. In a manager with no calibration recorded (\<^verbatim>\<open>last_calibration_ts\<close> is \<^verbatim>\<open>None\<close>) and
  the decay model its constructor installs, \<^verbatim>\<open>get_current_confidence\<close> returns, for every
  clock reading and every combination of its optional arguments, the dict with confidence
  equal to \<^verbatim>\<open>min_confidence\<close>, action \<^verbatim>\<open>ALERT\<close>, reason \<^verbatim>\<open>No calibration found\<close> and
  \<^verbatim>\<open>should_recalibrate\<close> true, and no other key.
\<close>

theorem get_current_confidence_uninitialized:
  assumes "last_calibration_ts self = None"
    and "decay_model self = CalibrationConfidenceDecay_default"
  shows "fst (get_current_confidence self now current_ts env_snapshot) =
           \<lparr>confidence = min_confidence (decay_model self),
            action = ''ALERT'',
            reason = (''No calibration found'', []),
            should_recalibrate = True,
            minutes_since_calibration = None,
            env_factors = None\<rparr>"
  using assms
  by (simp add: get_current_confidence_def CalibrationConfidenceDecay_default_def
      CalibrationConfidenceDecay_init_def)

theorem get_current_confidence_uninitialized_witness:
  "last_calibration_ts CalibrationManager_init = None \<and>
   decay_model CalibrationManager_init = CalibrationConfidenceDecay_default \<and>
   fst (get_current_confidence CalibrationManager_init 0 (Some 5) (Some [''wind_mph'' \<mapsto> 40])) =
           \<lparr>confidence = 1 / 2,
            action = ''ALERT'',
            reason = (''No calibration found'', []),
            should_recalibrate = True,
            minutes_since_calibration = None,
            env_factors = None\<rparr>"
  using get_current_confidence_uninitialized
    [of CalibrationManager_init 0 "Some 5" "Some [''wind_mph'' \<mapsto> 40]"]
  by (simp add: CalibrationManager_init_def CalibrationConfidenceDecay_default_def
      CalibrationConfidenceDecay_init_def)

text \<open>
  C10. A call of \<^verbatim>\<open>get_current_confidence\<close> on a manager with no calibration recorded
  returns the manager as it was: the snapshot of the call is not stored. So the deltas of
  a later evaluation, after a calibration, are those of a manager on which the call was
  never made.
\<close>

theorem get_current_confidence_uninitialized_frame:
  assumes "last_calibration_ts self = None"
  shows "snd (get_current_confidence self now current_ts env_snapshot) = self
       \<and> environmental_deltas
           (update_calibration (snd (get_current_confidence self now current_ts env_snapshot))
              now' venue session conf) later_snapshot
         = environmental_deltas (update_calibration self now' venue session conf) later_snapshot"
  using assms by (simp add: get_current_confidence_def)

theorem get_current_confidence_uninitialized_frame_witness:
  "last_calibration_ts CalibrationManager_init = None \<and>
   snd (get_current_confidence CalibrationManager_init 0 (Some 5) (Some [''temperature_f'' \<mapsto> 99]))
     = CalibrationManager_init"
  using get_current_confidence_uninitialized_frame
    [of CalibrationManager_init 0 "Some 5" "Some [''temperature_f'' \<mapsto> 99]"]
  by (simp add: CalibrationManager_init_def)

subsection \<open>Evaluating twice\<close>

lemma gcc_now_irrelevant:
  "get_current_confidence self n1 (Some t) e = get_current_confidence self n2 (Some t) e"
  by (cases "last_calibration_ts self") (simp_all add: get_current_confidence_def Let_def)

lemma gcc_state:
  "snd (get_current_confidence self now cur e) =
     (if last_calibration_ts self \<noteq> None \<and> truthy e
      then self\<lparr>last_env_snapshot := entries e\<rparr> else self)"
  by (cases "last_calibration_ts self")
    (simp_all add: get_current_confidence_def Let_def case_prod_beta)

lemma gcc_state_fixed:
  "last_calibration_ts self = None \<or> \<not> truthy e \<or> entries e = last_env_snapshot self \<Longrightarrow>
   snd (get_current_confidence self now cur e) = self"
  by (auto simp add: gcc_state)

lemma gcc_state_idem:
  "snd (get_current_confidence (snd (get_current_confidence self n1 c1 e)) n2 c2 e)
     = snd (get_current_confidence self n1 c1 e)"
  by (rule gcc_state_fixed) (auto simp add: gcc_state)

lemma gcc_env_factors:
  "last_calibration_ts self = Some t0 \<Longrightarrow>
   env_factors (fst (get_current_confidence self now cur e)) = Some (environmental_deltas self e)"
  by (simp add: get_current_confidence_def Let_def case_prod_beta)

text \<open>
  C1 (as the code has it). Two calls of \<^verbatim>\<open>get_current_confidence\<close> in immediate
  succession with the same timestamp and snapshot return equal results when the first call
  leaves the stored snapshot as it was: no calibration is recorded, or the snapshot is
  absent or empty, or it equals the stored one. In every case the first call leaves the
  manager in a state where the call repeats: the second call and a third one return equal
  results.
\<close>

theorem get_current_confidence_twice:
  "(last_calibration_ts self = None \<or> \<not> truthy e \<or> entries e = last_env_snapshot self \<longrightarrow>
      fst (get_current_confidence (snd (get_current_confidence self n1 (Some t) e)) n2 (Some t) e)
        = fst (get_current_confidence self n1 (Some t) e))
   \<and> fst (get_current_confidence
            (snd (get_current_confidence (snd (get_current_confidence self n1 (Some t) e)) n2 (Some t) e))
            n3 (Some t) e)
       = fst (get_current_confidence (snd (get_current_confidence self n1 (Some t) e)) n2 (Some t) e)"
proof (intro conjI impI)
  assume "last_calibration_ts self = None \<or> \<not> truthy e \<or> entries e = last_env_snapshot self"
  then have "snd (get_current_confidence self n1 (Some t) e) = self" by (rule gcc_state_fixed)
  then show "fst (get_current_confidence (snd (get_current_confidence self n1 (Some t) e)) n2 (Some t) e)
        = fst (get_current_confidence self n1 (Some t) e)"
    using gcc_now_irrelevant[of self n2 t e n1] by simp
next
  show "fst (get_current_confidence
            (snd (get_current_confidence (snd (get_current_confidence self n1 (Some t) e)) n2 (Some t) e))
            n3 (Some t) e)
       = fst (get_current_confidence (snd (get_current_confidence self n1 (Some t) e)) n2 (Some t) e)"
    unfolding gcc_state_idem
    using gcc_now_irrelevant[of "snd (get_current_confidence self n1 (Some t) e)" n3 t e n2] by simp
qed

theorem get_current_confidence_twice_witness:
  "\<not> truthy None
   \<and> fst (get_current_confidence
            (snd (get_current_confidence
                   (update_calibration CalibrationManager_init 0 ''busch_iii'' ''game_1'' (95 / 100))
                   7 (Some 900000000) None))
            8 (Some 900000000) None)
       = fst (get_current_confidence
               (update_calibration CalibrationManager_init 0 ''busch_iii'' ''game_1'' (95 / 100))
               7 (Some 900000000) None)"
  using get_current_confidence_twice
    [of "update_calibration CalibrationManager_init 0 ''busch_iii'' ''game_1'' (95 / 100)"
        None 7 900000000 8 9]
  by simp

text \<open>
  C1 as the claim words it fails. A manager calibrated at time 0 and asked twice, at
  minute 15, with the snapshot \<^verbatim>\<open>{'wind_mph': 5}\<close>: the first call finds no stored snapshot,
  computes no deltas and stores the snapshot; the second call finds it and returns
  \<^verbatim>\<open>env_factors\<close> with the two delta keys in it.
\<close>

theorem get_current_confidence_twice_counterexample:
  "fst (get_current_confidence
         (snd (get_current_confidence
                (update_calibration CalibrationManager_init 0 ''busch_iii'' ''game_1'' (95 / 100))
                0 (Some 900000000) (Some [''wind_mph'' \<mapsto> 5])))
         0 (Some 900000000) (Some [''wind_mph'' \<mapsto> 5]))
   \<noteq> fst (get_current_confidence
         (update_calibration CalibrationManager_init 0 ''busch_iii'' ''game_1'' (95 / 100))
         0 (Some 900000000) (Some [''wind_mph'' \<mapsto> 5]))"
proof
  let ?s0 = "update_calibration CalibrationManager_init 0 ''busch_iii'' ''game_1'' (95 / 100)"
  let ?e = "Some [''wind_mph'' \<mapsto> (5::real)]"
  let ?s1 = "snd (get_current_confidence ?s0 0 (Some 900000000) ?e)"
  assume "fst (get_current_confidence ?s1 0 (Some 900000000) ?e)
            = fst (get_current_confidence ?s0 0 (Some 900000000) ?e)"
  then have "env_factors (fst (get_current_confidence ?s1 0 (Some 900000000) ?e))
            = env_factors (fst (get_current_confidence ?s0 0 (Some 900000000) ?e))"
    by simp
  moreover have t0: "last_calibration_ts ?s0 = Some 0"
    by (simp add: update_calibration_def)
  moreover have t1: "last_calibration_ts ?s1 = Some 0"
    by (simp add: gcc_state update_calibration_def)
  ultimately have "environmental_deltas ?s1 ?e = environmental_deltas ?s0 ?e"
    by (simp only: gcc_env_factors[OF t0] gcc_env_factors[OF t1] option.inject)
  then have "environmental_deltas ?s1 ?e ''temperature_delta_f''
           = environmental_deltas ?s0 ?e ''temperature_delta_f''"
    by simp
  moreover have "environmental_deltas ?s0 ?e ''temperature_delta_f'' = None"
    by (simp add: environmental_deltas_def update_calibration_def CalibrationManager_init_def Let_def)
  moreover have "environmental_deltas ?s1 ?e ''temperature_delta_f'' = Some 0"
    by (simp add: environmental_deltas_def gcc_state update_calibration_def
        CalibrationManager_init_def Let_def get_default_def)
  ultimately show False by simp
qed

subsection \<open>Keys missing from the snapshot\<close>

lemma steps_del_wind:
  "vibration_step self (ef(''wind_mph'' := None)) m = vibration_step self ef m"
  "wind_step self (ef(''wind_mph'' := None)) m = m"
  "temperature_step self (ef(''wind_mph'' := None)) m = temperature_step self ef m"
  "humidity_step self (ef(''wind_mph'' := None)) m = humidity_step self ef m"
  by (simp_all add: vibration_step_def wind_step_def temperature_step_def humidity_step_def)

lemma steps_del_vibration:
  "vibration_step self (ef(''rig_vibration_idx'' := None)) m = m"
  "wind_step self (ef(''rig_vibration_idx'' := None)) m = wind_step self ef m"
  "temperature_step self (ef(''rig_vibration_idx'' := None)) m = temperature_step self ef m"
  "humidity_step self (ef(''rig_vibration_idx'' := None)) m = humidity_step self ef m"
  by (simp_all add: vibration_step_def wind_step_def temperature_step_def humidity_step_def)

lemma steps_del_temperature:
  "vibration_step self (ef(''temperature_delta_f'' := None)) m = vibration_step self ef m"
  "wind_step self (ef(''temperature_delta_f'' := None)) m = wind_step self ef m"
  "temperature_step self (ef(''temperature_delta_f'' := None)) m = m"
  "humidity_step self (ef(''temperature_delta_f'' := None)) m = humidity_step self ef m"
  by (simp_all add: vibration_step_def wind_step_def temperature_step_def humidity_step_def)

lemma steps_del_humidity:
  "vibration_step self (ef(''humidity_delta_pct'' := None)) m = vibration_step self ef m"
  "wind_step self (ef(''humidity_delta_pct'' := None)) m = wind_step self ef m"
  "temperature_step self (ef(''humidity_delta_pct'' := None)) m = temperature_step self ef m"
  "humidity_step self (ef(''humidity_delta_pct'' := None)) m = m"
  by (simp_all add: vibration_step_def wind_step_def temperature_step_def humidity_step_def)

lemma wind_ignored:
  "wind_step self ef 1 = 1 \<Longrightarrow>
   adjust_decay_rate self b (Some ef) = adjust_decay_rate self b (without_factor ''wind_mph'' (Some ef))"
  by (simp add: without_factor_def adjust_decay_rate_Some env_multiplier_prod steps_del_wind)

lemma vibration_ignored:
  "vibration_step self ef 1 = 1 \<Longrightarrow>
   adjust_decay_rate self b (Some ef)
     = adjust_decay_rate self b (without_factor ''rig_vibration_idx'' (Some ef))"
  by (simp add: without_factor_def adjust_decay_rate_Some env_multiplier_prod steps_del_vibration)

lemma temperature_ignored:
  "temperature_step self ef 1 = 1 \<Longrightarrow>
   adjust_decay_rate self b (Some ef)
     = adjust_decay_rate self b (without_factor ''temperature_delta_f'' (Some ef))"
  by (simp add: without_factor_def adjust_decay_rate_Some env_multiplier_prod steps_del_temperature)

lemma humidity_ignored:
  "humidity_step self ef 1 = 1 \<Longrightarrow>
   adjust_decay_rate self b (Some ef)
     = adjust_decay_rate self b (without_factor ''humidity_delta_pct'' (Some ef))"
  by (simp add: without_factor_def adjust_decay_rate_Some env_multiplier_prod steps_del_humidity)

lemma deltas_falsy: "\<not> truthy e \<Longrightarrow> environmental_deltas self e = Map.empty"
  by (simp add: environmental_deltas_def)

lemma deltas_wind_missing:
  "entries e ''wind_mph'' = None \<Longrightarrow> wind_step d (environmental_deltas self e) 1 = 1"
  by (simp add: environmental_deltas_def wind_step_def get_default_def Let_def)

lemma deltas_vibration_missing:
  "entries e ''rig_vibration_idx_0_1'' = None \<Longrightarrow>
   vibration_step d (environmental_deltas self e) 1 = 1"
  by (simp add: environmental_deltas_def vibration_step_def get_default_def Let_def)

lemma deltas_temperature_missing:
  "entries e ''temperature_f'' = None \<Longrightarrow>
   last_env_snapshot self = Map.empty
     \<or> \<bar>70 - get_default (last_env_snapshot self) ''temperature_f'' 70\<bar> \<le> 5 \<Longrightarrow>
   temperature_step d (environmental_deltas self e) 1 = 1"
  by (auto simp add: environmental_deltas_def temperature_step_def get_default_def Let_def)

lemma deltas_humidity_missing:
  "entries e ''humidity_pct'' = None \<Longrightarrow>
   last_env_snapshot self = Map.empty
     \<or> \<bar>50 - get_default (last_env_snapshot self) ''humidity_pct'' 50\<bar> \<le> 10 \<Longrightarrow>
   humidity_step d (environmental_deltas self e) 1 = 1"
  by (auto simp add: environmental_deltas_def humidity_step_def get_default_def Let_def)

lemma calc_cong:
  "adjust_decay_rate d (decay_rate d) e1 = adjust_decay_rate d (decay_rate d) e2 \<Longrightarrow>
   calculate_confidence d a b e1 = calculate_confidence d a b e2"
  by (simp add: calculate_confidence_def)

lemma gcc_confidence:
  "last_calibration_ts self = Some t0 \<Longrightarrow>
   confidence (fst (get_current_confidence self now cur e)) =
     py_round (calculate_confidence (decay_model self) t0
                 (case cur of None \<Rightarrow> now | Some t \<Rightarrow> t)
                 (Some (environmental_deltas self e))) 3"
  by (simp add: get_current_confidence_def Let_def case_prod_beta)

lemma gcc_action:
  "last_calibration_ts self = Some t0 \<Longrightarrow>
   action (fst (get_current_confidence self now cur e)) =
     get_action (decay_model self) (calculate_confidence (decay_model self) t0
                 (case cur of None \<Rightarrow> now | Some t \<Rightarrow> t)
                 (Some (environmental_deltas self e)))"
  by (simp add: get_current_confidence_def Let_def case_prod_beta)

lemma factor_ignoredI:
  assumes ts: "last_calibration_ts self = Some t0"
    and eq: "\<And>b. adjust_decay_rate (decay_model self) b (Some (environmental_deltas self e))
       = adjust_decay_rate (decay_model self) b (without_factor k (Some (environmental_deltas self e)))"
  shows "factor_ignored self t0 (case cur of None \<Rightarrow> now | Some t \<Rightarrow> t)
           (fst (get_current_confidence self now cur e)) k"
  unfolding factor_ignored_def gcc_env_factors[OF ts] gcc_confidence[OF ts] gcc_action[OF ts]
  using eq calc_cong[OF eq] by simp

text \<open>
  C3 (as the code has it). On a calibrated manager a missing key never makes
  \<^verbatim>\<open>get_current_confidence\<close> fail: it is read with \<^verbatim>\<open>dict.get\<close> and a default. A missing
  \<^verbatim>\<open>rig_vibration_idx_0_1\<close> or \<^verbatim>\<open>wind_mph\<close> is read as 0 and contributes nothing, for
  every stored snapshot. A missing \<^verbatim>\<open>temperature_f\<close> (\<^verbatim>\<open>humidity_pct\<close>) is read as 70 (50),
  and contributes nothing when the stored snapshot is empty, or when its own value of the
  key, 70 (50) if it has none, is within 5 (10) of that default.
\<close>

theorem missing_key_ignored:
  assumes "last_calibration_ts self = Some t0"
  shows
  "(entries e ''rig_vibration_idx_0_1'' = None \<longrightarrow>
      factor_ignored self t0 (case cur of None \<Rightarrow> now | Some t \<Rightarrow> t)
        (fst (get_current_confidence self now cur e)) ''rig_vibration_idx'')
   \<and> (entries e ''wind_mph'' = None \<longrightarrow>
      factor_ignored self t0 (case cur of None \<Rightarrow> now | Some t \<Rightarrow> t)
        (fst (get_current_confidence self now cur e)) ''wind_mph'')
   \<and> (entries e ''temperature_f'' = None
       \<and> (last_env_snapshot self = Map.empty
            \<or> \<bar>70 - get_default (last_env_snapshot self) ''temperature_f'' 70\<bar> \<le> 5) \<longrightarrow>
      factor_ignored self t0 (case cur of None \<Rightarrow> now | Some t \<Rightarrow> t)
        (fst (get_current_confidence self now cur e)) ''temperature_delta_f'')
   \<and> (entries e ''humidity_pct'' = None
       \<and> (last_env_snapshot self = Map.empty
            \<or> \<bar>50 - get_default (last_env_snapshot self) ''humidity_pct'' 50\<bar> \<le> 10) \<longrightarrow>
      factor_ignored self t0 (case cur of None \<Rightarrow> now | Some t \<Rightarrow> t)
        (fst (get_current_confidence self now cur e)) ''humidity_delta_pct'')"
proof (intro conjI impI)
  assume "entries e ''rig_vibration_idx_0_1'' = None"
  then show "factor_ignored self t0 (case cur of None \<Rightarrow> now | Some t \<Rightarrow> t)
        (fst (get_current_confidence self now cur e)) ''rig_vibration_idx''"
    by (intro factor_ignoredI[OF assms] vibration_ignored deltas_vibration_missing)
next
  assume "entries e ''wind_mph'' = None"
  then show "factor_ignored self t0 (case cur of None \<Rightarrow> now | Some t \<Rightarrow> t)
        (fst (get_current_confidence self now cur e)) ''wind_mph''"
    by (intro factor_ignoredI[OF assms] wind_ignored deltas_wind_missing)
next
  assume "entries e ''temperature_f'' = None
       \<and> (last_env_snapshot self = Map.empty
            \<or> \<bar>70 - get_default (last_env_snapshot self) ''temperature_f'' 70\<bar> \<le> 5)"
  then show "factor_ignored self t0 (case cur of None \<Rightarrow> now | Some t \<Rightarrow> t)
        (fst (get_current_confidence self now cur e)) ''temperature_delta_f''"
    by (intro factor_ignoredI[OF assms] temperature_ignored deltas_temperature_missing) simp_all
next
  assume "entries e ''humidity_pct'' = None
       \<and> (last_env_snapshot self = Map.empty
            \<or> \<bar>50 - get_default (last_env_snapshot self) ''humidity_pct'' 50\<bar> \<le> 10)"
  then show "factor_ignored self t0 (case cur of None \<Rightarrow> now | Some t \<Rightarrow> t)
        (fst (get_current_confidence self now cur e)) ''humidity_delta_pct''"
    by (intro factor_ignoredI[OF assms] humidity_ignored deltas_humidity_missing) simp_all
qed

theorem missing_key_ignored_witness:
  "last_calibration_ts (update_calibration CalibrationManager_init 0 ''busch_iii'' ''game_1'' (95 / 100))
     = Some 0
   \<and> entries (Some [''tracking_qa'' \<mapsto> 8 / 10]) ''rig_vibration_idx_0_1'' = None
   \<and> entries (Some [''tracking_qa'' \<mapsto> 8 / 10]) ''wind_mph'' = None
   \<and> entries (Some [''tracking_qa'' \<mapsto> 8 / 10]) ''temperature_f'' = None
   \<and> entries (Some [''tracking_qa'' \<mapsto> 8 / 10]) ''humidity_pct'' = None
   \<and> last_env_snapshot
        (update_calibration CalibrationManager_init 0 ''busch_iii'' ''game_1'' (95 / 100)) = Map.empty
   \<and> factor_ignored
        (update_calibration CalibrationManager_init 0 ''busch_iii'' ''game_1'' (95 / 100)) 0 60000000
        (fst (get_current_confidence
               (update_calibration CalibrationManager_init 0 ''busch_iii'' ''game_1'' (95 / 100))
               1 (Some 60000000) (Some [''tracking_qa'' \<mapsto> 8 / 10])))
        ''rig_vibration_idx''
   \<and> factor_ignored
        (update_calibration CalibrationManager_init 0 ''busch_iii'' ''game_1'' (95 / 100)) 0 60000000
        (fst (get_current_confidence
               (update_calibration CalibrationManager_init 0 ''busch_iii'' ''game_1'' (95 / 100))
               1 (Some 60000000) (Some [''tracking_qa'' \<mapsto> 8 / 10])))
        ''wind_mph''
   \<and> factor_ignored
        (update_calibration CalibrationManager_init 0 ''busch_iii'' ''game_1'' (95 / 100)) 0 60000000
        (fst (get_current_confidence
               (update_calibration CalibrationManager_init 0 ''busch_iii'' ''game_1'' (95 / 100))
               1 (Some 60000000) (Some [''tracking_qa'' \<mapsto> 8 / 10])))
        ''temperature_delta_f''
   \<and> factor_ignored
        (update_calibration CalibrationManager_init 0 ''busch_iii'' ''game_1'' (95 / 100)) 0 60000000
        (fst (get_current_confidence
               (update_calibration CalibrationManager_init 0 ''busch_iii'' ''game_1'' (95 / 100))
               1 (Some 60000000) (Some [''tracking_qa'' \<mapsto> 8 / 10])))
        ''humidity_delta_pct''"
  using missing_key_ignored
    [where self = "update_calibration CalibrationManager_init 0 ''busch_iii'' ''game_1'' (95 / 100)"
       and ?t0.0 = 0 and e = "Some [''tracking_qa'' \<mapsto> 8 / 10]" and cur = "Some 60000000"
       and now = 1]
  by (simp add: update_calibration_def CalibrationManager_init_def)


text \<open>
  C3 as the claim words it fails for a stored snapshot that has the key with a value far
  from the default. A manager calibrated at time 0 stores \<^verbatim>\<open>{'temperature_f': 90}\<close>; at
  minute 36 it is asked with \<^verbatim>\<open>{'wind_mph': 0}\<close>, which has no temperature. The delta is
  \<open>70 - 90\<close>, the rate is multiplied by 1.3 and the confidence is the floor 0.5; with the
  temperature factor absent it is above 0.522.
\<close>

lemma py_round3_lower: "x - 1 / 2000 \<le> py_round x 3"
proof -
  define y where "y = x * 1000"
  define f where "f = \<lfloor>y\<rfloor>"
  have f1: "of_int f \<le> y" and f2: "y < of_int f + 1"
    unfolding f_def by linarith+
  have "y - 1 / 2 \<le> of_int (if y - of_int f < 1 / 2 then f
                 else if 1 / 2 < y - of_int f then f + 1
                 else if even f then f else f + 1)"
    using f1 f2 by auto
  then have "(y - 1 / 2) / 1000 \<le> of_int (if y - of_int f < 1 / 2 then f
                 else if 1 / 2 < y - of_int f then f + 1
                 else if even f then f else f + 1) / 1000"
    by (rule divide_right_mono) simp
  moreover have "py_round x 3 = of_int (if y - of_int f < 1 / 2 then f
                 else if 1 / 2 < y - of_int f then f + 1
                 else if even f then f else f + 1) / 1000"
    unfolding py_round_def Let_def y_def f_def by simp
  moreover have "(y - 1 / 2) / 1000 = x - 1 / 2000" by (simp add: y_def)
  ultimately show ?thesis by simp
qed

lemma py_round_half: "py_round (1 / 2) 3 = 1 / 2"
  by (simp add: py_round_def Let_def)

lemma exp_four_fifths: "(11 / 20 :: real) < exp (- (4 / 5) * ln 2)"
proof (rule ccontr)
  let ?y = "exp (- (4 / 5) * ln (2::real))"
  assume "\<not> 11 / 20 < ?y"
  then have le: "?y \<le> 11 / 20" by simp
  have pos: "0 \<le> ?y" by simp
  have "(1 / 16 :: real) = exp (- (of_nat 4 * ln 2))"
    by (simp only: exp_minus exp_of_nat_mult) (simp add: inverse_eq_divide)
  also have "\<dots> = exp (of_nat 5 * (- (4 / 5) * ln (2::real)))" by simp
  also have "\<dots> = ?y ^ 5" by (rule exp_of_nat_mult)
  also have "\<dots> \<le> (11 / 20) ^ 5" using le pos by (rule power_mono)
  finally have "(1 / 16 :: real) \<le> (11 / 20) ^ 5" .
  then show False by (simp add: power_divide)
qed


lemma calc_Some:
  "calculate_confidence d a b (Some ef) =
     max (initial_confidence d
            * exp (- (decay_rate d * env_multiplier d ef) * (total_seconds (b - a) / 60)))
         (min_confidence d)"
  by (simp add: calculate_confidence_def adjust_decay_rate_Some Let_def)

lemma default_fields:
  "initial_confidence CalibrationConfidenceDecay_default = 95 / 100"
  "min_confidence CalibrationConfidenceDecay_default = 1 / 2"
  "decay_rate CalibrationConfidenceDecay_default = ln 2 / 45"
  "env_weights CalibrationConfidenceDecay_default =
     \<lparr>vibration = 2.0, wind = 1.5, temperature_delta = 1.3, humidity_delta = 1.2\<rparr>"
  by (simp_all add: CalibrationConfidenceDecay_default_def CalibrationConfidenceDecay_init_def)

lemma hot_prior_state:
  defines "s1 \<equiv> snd (get_current_confidence
                (update_calibration CalibrationManager_init 0 ''busch_iii'' ''game_1'' (95 / 100))
                0 (Some 0) (Some [''temperature_f'' \<mapsto> 90]))"
  shows "last_calibration_ts s1 = Some 0"
    and "last_env_snapshot s1 = [''temperature_f'' \<mapsto> 90]"
    and "decay_model s1 = CalibrationConfidenceDecay_default"
  by (simp_all add: s1_def gcc_state update_calibration_def CalibrationManager_init_def)

lemma hot_prior_deltas:
  defines "s1 \<equiv> snd (get_current_confidence
                (update_calibration CalibrationManager_init 0 ''busch_iii'' ''game_1'' (95 / 100))
                0 (Some 0) (Some [''temperature_f'' \<mapsto> 90]))"
  defines "ef \<equiv> environmental_deltas s1 (Some [''wind_mph'' \<mapsto> 0])"
  shows "env_multiplier CalibrationConfidenceDecay_default ef = 13 / 10"
    and "env_multiplier CalibrationConfidenceDecay_default (ef(''temperature_delta_f'' := None)) = 1"
proof -
  have ef: "ef ''temperature_delta_f'' = Some (- 20)" "ef ''humidity_delta_pct'' = Some 0"
    "ef ''rig_vibration_idx'' = Some 0" "ef ''wind_mph'' = Some 0"
    unfolding ef_def environmental_deltas_def hot_prior_state(2)[folded s1_def]
    by (simp_all add: get_default_def Let_def)
  show "env_multiplier CalibrationConfidenceDecay_default ef = 13 / 10"
    unfolding env_multiplier_prod
    by (simp add: ef vibration_step_def wind_step_def temperature_step_def humidity_step_def
        default_fields Let_def)
  show "env_multiplier CalibrationConfidenceDecay_default (ef(''temperature_delta_f'' := None)) = 1"
    unfolding env_multiplier_prod steps_del_temperature
    by (simp add: ef vibration_step_def wind_step_def humidity_step_def default_fields Let_def)
qed

lemma exp_hot: "exp (- (ln 2 / 45 * (13 / 10)) * (total_seconds (2160000000 - 0) / 60)) \<le> (1 / 2 :: real)"
proof -
  have "- (ln 2 / 45 * (13 / 10)) * (total_seconds (2160000000 - 0) / 60) = - (26 / 25) * ln (2::real)"
    by (simp add: total_seconds_def)
  moreover have "- (26 / 25) * ln (2::real) \<le> - ln 2" by simp
  then have "exp (- (26 / 25) * ln (2::real)) \<le> exp (- ln 2)" by (simp only: exp_le_cancel_iff)
  moreover have "exp (- ln (2::real)) = 1 / 2" by (simp add: exp_minus inverse_eq_divide)
  ultimately show ?thesis by simp
qed

lemma exp_nominal: "(11 / 20 :: real) < exp (- (ln 2 / 45 * 1) * (total_seconds (2160000000 - 0) / 60))"
proof -
  have "- (ln 2 / 45 * 1) * (total_seconds (2160000000 - 0) / 60) = - (4 / 5) * ln (2::real)"
    by (simp add: total_seconds_def)
  with exp_four_fifths show ?thesis by simp
qed

theorem missing_temperature_counterexample:
  "entries (Some [''wind_mph'' \<mapsto> 0]) ''temperature_f'' = None
   \<and> confidence (fst (get_current_confidence
        (snd (get_current_confidence
                (update_calibration CalibrationManager_init 0 ''busch_iii'' ''game_1'' (95 / 100))
                0 (Some 0) (Some [''temperature_f'' \<mapsto> 90])))
        0 (Some 2160000000) (Some [''wind_mph'' \<mapsto> 0])))
     \<noteq> py_round (calculate_confidence CalibrationConfidenceDecay_default 0 2160000000
         (without_factor ''temperature_delta_f''
           (env_factors (fst (get_current_confidence
              (snd (get_current_confidence
                (update_calibration CalibrationManager_init 0 ''busch_iii'' ''game_1'' (95 / 100))
                0 (Some 0) (Some [''temperature_f'' \<mapsto> 90])))
              0 (Some 2160000000) (Some [''wind_mph'' \<mapsto> 0])))))) 3"
proof -
  let ?s1 = "snd (get_current_confidence
                (update_calibration CalibrationManager_init 0 ''busch_iii'' ''game_1'' (95 / 100))
                0 (Some 0) (Some [''temperature_f'' \<mapsto> 90]))"
  let ?e = "Some [''wind_mph'' \<mapsto> (0::real)]"
  let ?ef = "environmental_deltas ?s1 ?e"
  let ?d = CalibrationConfidenceDecay_default
  have with_factor: "calculate_confidence ?d 0 2160000000 (Some ?ef) = 1 / 2"
  proof -
    have "(95 / 100) * exp (- (ln 2 / 45 * (13 / 10)) * (total_seconds (2160000000 - 0) / 60))
            \<le> (95 / 100) * (1 / 2 :: real)"
      using exp_hot by (intro mult_left_mono) auto
    then show ?thesis
      unfolding calc_Some hot_prior_deltas(1) default_fields by simp
  qed
  have without: "522 / 1000 < py_round (calculate_confidence ?d 0 2160000000
                     (without_factor ''temperature_delta_f'' (Some ?ef))) 3"
  proof -
    have "(95 / 100) * (11 / 20 :: real)
            < (95 / 100) * exp (- (ln 2 / 45 * 1) * (total_seconds (2160000000 - 0) / 60))"
      using exp_nominal by (intro mult_strict_left_mono) auto
    then have "5225 / 10000 < calculate_confidence ?d 0 2160000000
                     (without_factor ''temperature_delta_f'' (Some ?ef))"
      unfolding without_factor_def entries_Some calc_Some hot_prior_deltas(2) default_fields
      by simp
    with py_round3_lower[of "calculate_confidence ?d 0 2160000000
                     (without_factor ''temperature_delta_f'' (Some ?ef))"]
    show ?thesis by simp
  qed
  have "confidence (fst (get_current_confidence ?s1 0 (Some 2160000000) ?e))
          = py_round (calculate_confidence ?d 0 2160000000 (Some ?ef)) 3"
    unfolding gcc_confidence[OF hot_prior_state(1)] hot_prior_state(3) option.case ..
  then have "confidence (fst (get_current_confidence ?s1 0 (Some 2160000000) ?e)) = 1 / 2"
    by (simp only: with_factor py_round_half)
  moreover have "env_factors (fst (get_current_confidence ?s1 0 (Some 2160000000) ?e)) = Some ?ef"
    by (rule gcc_env_factors[OF hot_prior_state(1)])
  moreover have "entries ?e ''temperature_f'' = None" by simp
  ultimately show ?thesis using without by simp
qed

subsection \<open>Infinities and NaN\<close>

text \<open>On finite values the embedding over doubles is the exact one.\<close>

lemma finite_dict_empty_iff: "(\<lambda>k. map_option Finite (m k)) = Map.empty \<longleftrightarrow> m = Map.empty"
  by (auto simp add: fun_eq_iff)

lemma py_min_Finite: "py_min (Finite x) (Finite y) = Finite (min x y)"
  by (simp add: py_min_def min_def)

lemma py_max_Finite: "py_max (Finite x) (Finite y) = Finite (max x y)"
  by (simp add: py_max_def max_def)

lemma vibration_step_f_Finite:
  "vibration_step_f self (\<lambda>k. map_option Finite (m k)) (Finite x) = Finite (vibration_step self m x)"
  by (simp add: vibration_step_f_def vibration_step_def split: option.split)

lemma wind_step_f_Finite:
  "wind_step_f self (\<lambda>k. map_option Finite (m k)) (Finite x) = Finite (wind_step self m x)"
  by (simp add: wind_step_f_def wind_step_def py_min_Finite Let_def split: option.split)

lemma temperature_step_f_Finite:
  "temperature_step_f self (\<lambda>k. map_option Finite (m k)) (Finite x)
     = Finite (temperature_step self m x)"
  by (simp add: temperature_step_f_def temperature_step_def py_min_Finite Let_def split: option.split)

lemma humidity_step_f_Finite:
  "humidity_step_f self (\<lambda>k. map_option Finite (m k)) (Finite x)
     = Finite (humidity_step self m x)"
  by (simp add: humidity_step_f_def humidity_step_def py_min_Finite Let_def split: option.split)

lemma adjust_decay_rate_f_Finite:
  "adjust_decay_rate_f self (Finite b) (finite_dict env) = Finite (adjust_decay_rate self b env)"
proof (cases env)
  case None
  then show ?thesis by (simp add: adjust_decay_rate_f_def adjust_decay_rate_def finite_dict_def)
next
  case (Some m)
  show ?thesis
  proof (cases "m = Map.empty")
    case True
    with Some show ?thesis
      by (simp add: adjust_decay_rate_f_def adjust_decay_rate_def finite_dict_def)
  next
    case False
    then have "(\<lambda>k. map_option Finite (m k)) \<noteq> Map.empty" by (simp add: finite_dict_empty_iff)
    with Some False show ?thesis
      by (simp add: adjust_decay_rate_f_def adjust_decay_rate_def finite_dict_def truthy_def
          vibration_step_f_Finite wind_step_f_Finite temperature_step_f_Finite
          humidity_step_f_Finite Let_def)
  qed
qed

lemma calculate_confidence_f_Finite:
  "calculate_confidence_f self a b (finite_dict env) = Finite (calculate_confidence self a b env)"
  by (simp add: calculate_confidence_f_def calculate_confidence_def adjust_decay_rate_f_Finite
      py_max_Finite Let_def)

lemma calculate_confidence_f_ge_min:
  "fge (calculate_confidence_f self a b (finite_dict env)) (Finite (min_confidence self))"
  by (simp add: calculate_confidence_f_Finite calculate_confidence_ge_min_exact)

text \<open>
  C6. The claim is that the confidence returned by \<^verbatim>\<open>calculate_confidence\<close> is at least
  \<^verbatim>\<open>min_confidence\<close> for every combination of inputs. The vibration branch has no cap (the
  wind, temperature and humidity branches cap their magnitude with \<^verbatim>\<open>min(..., 1.0)\<close>), so
  an infinite vibration index gives an infinite rate; at an elapsed time of zero
  \<^verbatim>\<open>-inf * 0.0\<close> is \<^verbatim>\<open>nan\<close>, and \<^verbatim>\<open>max(nan, min_confidence)\<close> returns \<^verbatim>\<open>nan\<close>, which is
  not at least \<^verbatim>\<open>min_confidence\<close>.
\<close>

theorem calculate_confidence_nan:
  "calculate_confidence_f CalibrationConfidenceDecay_default 0 0
     (Some [''rig_vibration_idx'' \<mapsto> PosInf]) = NaN
   \<and> \<not> fge (calculate_confidence_f CalibrationConfidenceDecay_default 0 0
              (Some [''rig_vibration_idx'' \<mapsto> PosInf]))
            (Finite (min_confidence CalibrationConfidenceDecay_default))"
proof -
  have "adjust_decay_rate_f CalibrationConfidenceDecay_default
          (Finite (decay_rate CalibrationConfidenceDecay_default))
          (Some [''rig_vibration_idx'' \<mapsto> PosInf]) = PosInf"
    by (simp add: adjust_decay_rate_f_def vibration_step_f_def wind_step_f_def
        temperature_step_f_def humidity_step_f_def default_fields Let_def)
  then have "calculate_confidence_f CalibrationConfidenceDecay_default 0 0
     (Some [''rig_vibration_idx'' \<mapsto> PosInf]) = NaN"
    by (simp add: calculate_confidence_f_def total_seconds_def py_max_def Let_def)
  then show ?thesis by simp
qed

text \<open>
  C7. The claim is that the rate returned by \<^verbatim>\<open>_adjust_decay_rate\<close> is at least the base
  rate, for every base rate \<open>\<ge> 0\<close> and every input. With the base rate 0.0 and an infinite
  vibration index, the uncapped vibration branch makes the multiplier infinite and the
  method returns \<^verbatim>\<open>0.0 * inf\<close>, which is \<^verbatim>\<open>nan\<close> and not at least the base rate.
\<close>

theorem adjust_decay_rate_nan:
  "adjust_decay_rate_f CalibrationConfidenceDecay_default (Finite 0)
     (Some [''rig_vibration_idx'' \<mapsto> PosInf]) = NaN
   \<and> \<not> fge (adjust_decay_rate_f CalibrationConfidenceDecay_default (Finite 0)
              (Some [''rig_vibration_idx'' \<mapsto> PosInf])) (Finite 0)"
proof -
  have "adjust_decay_rate_f CalibrationConfidenceDecay_default (Finite 0)
     (Some [''rig_vibration_idx'' \<mapsto> PosInf]) = NaN"
    by (simp add: adjust_decay_rate_f_def vibration_step_f_def wind_step_f_def
        temperature_step_f_def humidity_step_f_def default_fields Let_def)
  then show ?thesis by simp
qed

end
